theory Spec2Isabelle
  imports Complex_Main "HOL-Library.Char_ord" "HOL-Library.List_Lexorder"
begin

section \<open>Python values used by the indexer\<close>

text \<open>
  Exceptions are values: the class of the exception and the text that \<^verbatim>\<open>str(e)\<close>
  gives. A function of the source that may raise returns \<open>exn + 'a\<close>, with \<open>Inl\<close>
  for the exception.
\<close>

datatype exn =
    OSError string
  | UnicodeDecodeError string
  | PdfError string
  | TypeError string
  | ValueError string
  | ValidationError string
  | RuntimeError string
  | HTTPException nat string

fun exn_class :: "exn \<Rightarrow> string" where
  "exn_class (OSError m) = ''OSError''"
| "exn_class (UnicodeDecodeError m) = ''UnicodeDecodeError''"
| "exn_class (PdfError m) = ''PdfReadError''"
| "exn_class (TypeError m) = ''TypeError''"
| "exn_class (ValueError m) = ''ValueError''"
| "exn_class (ValidationError m) = ''ValidationError''"
| "exn_class (RuntimeError m) = ''RuntimeError''"
| "exn_class (HTTPException c m) = ''HTTPException''"

text \<open>\<^verbatim>\<open>str(e)\<close> and \<^verbatim>\<open>f"{e}"\<close>.\<close>

fun exn_str :: "exn \<Rightarrow> string" where
  "exn_str (OSError m) = m"
| "exn_str (UnicodeDecodeError m) = m"
| "exn_str (PdfError m) = m"
| "exn_str (TypeError m) = m"
| "exn_str (ValueError m) = m"
| "exn_str (ValidationError m) = m"
| "exn_str (RuntimeError m) = m"
| "exn_str (HTTPException c m) = m"

text \<open>
  \<^verbatim>\<open>repr(e)\<close> of an exception built from one message, and \<^verbatim>\<open>f"{errors}"\<close> of a
  list of them, for messages that hold no quote and no escape. An exception built from
  several arguments (an \<^verbatim>\<open>OSError\<close> with its error number) prints them all; the
  text of the message is all that this changes, not which exceptions are listed nor
  their order.
\<close>

definition exn_repr :: "exn \<Rightarrow> string" where
  "exn_repr e = exn_class e @ ''('' @ [CHR 0x27] @ exn_str e @ [CHR 0x27] @ '')''"

fun join :: "string \<Rightarrow> string list \<Rightarrow> string" where
  "join sep [] = []"
| "join sep [x] = x"
| "join sep (x # y # ys) = x @ sep @ join sep (y # ys)"

definition exn_list_repr :: "exn list \<Rightarrow> string" where
  "exn_list_repr es = ''['' @ join '', '' (map exn_repr es) @ '']''"

text \<open>
  \<^verbatim>\<open>str.strip()\<close>: the characters below \<open>256\<close> for which \<^verbatim>\<open>str.isspace\<close> holds.
\<close>

definition py_isspace :: "char \<Rightarrow> bool" where
  "py_isspace c \<longleftrightarrow>
     c \<in> set [CHR 0x09, CHR 0x0A, CHR 0x0B, CHR 0x0C, CHR 0x0D, CHR 0x1C, CHR 0x1D,
               CHR 0x1E, CHR 0x1F, CHR 0x20, CHR 0x85, CHR 0xA0]"

definition py_strip :: "string \<Rightarrow> string" where
  "py_strip s = rev (dropWhile py_isspace (rev (dropWhile py_isspace s)))"

text \<open>\<^verbatim>\<open>str.lower()\<close> on the ASCII letters.\<close>

definition py_lower_char :: "char \<Rightarrow> char" where
  "py_lower_char c =
     (case map_of (zip ''ABCDEFGHIJKLMNOPQRSTUVWXYZ'' ''abcdefghijklmnopqrstuvwxyz'') c of
        Some l \<Rightarrow> l
      | None \<Rightarrow> c)"

definition py_lower :: "string \<Rightarrow> string" where
  "py_lower s = map py_lower_char s"

text \<open>\<^verbatim>\<open>s.split(sep)\<close> for a separator of one character.\<close>

fun split_on :: "char \<Rightarrow> string \<Rightarrow> string list" where
  "split_on sep [] = [[]]"
| "split_on sep (c # cs) =
     (if c = sep then [] # split_on sep cs
      else (case split_on sep cs of
              [] \<Rightarrow> [[c]]
            | w # ws \<Rightarrow> (c # w) # ws))"

section \<open>Paths (pathlib, POSIX flavour)\<close>

text \<open>
  A path is the string \<^verbatim>\<open>str(p)\<close>. \<open>path_name\<close> is \<^verbatim>\<open>Path(s).name\<close>, the last
  component; \<open>path_suffix\<close> is \<^verbatim>\<open>p.suffix\<close>: the name from its last dot on, when
  that dot is neither the first nor the last character of the name.
\<close>

definition path_name :: "string \<Rightarrow> string" where
  "path_name p =
     (let parts = filter (\<lambda>c. c \<noteq> [] \<and> c \<noteq> ''.'') (split_on (CHR ''/'') p)
      in if parts = [] then [] else last parts)"

definition path_suffix :: "string \<Rightarrow> string" where
  "path_suffix p =
     (let name = path_name p;
          ext = rev (takeWhile (\<lambda>c. c \<noteq> CHR ''.'') (rev name));
          i = length name - length ext - 1
      in if CHR ''.'' \<in> set name \<and> 0 < i \<and> ext \<noteq> [] then drop i name else [])"

section \<open>The root folder\<close>

text \<open>
  One entry of \<^verbatim>\<open>Path(data_dir).rglob("*")\<close>: its path, whether \<^verbatim>\<open>p.is_file()\<close>
  holds, \<^verbatim>\<open>p.stat().st_mtime\<close> (seconds, with a fraction), and what reading the file
  gives: the outcome of \<^verbatim>\<open>p.read_text(encoding="utf-8")\<close>, of
  \<^verbatim>\<open>p.read_text(encoding="latin-1")\<close>, and of opening the file with
  \<^verbatim>\<open>PdfReader\<close> and calling \<^verbatim>\<open>extract_text()\<close> on each page (one element per
  page, \<open>None\<close> for a page without text; \<open>Inl\<close> when the reader or a page raises).
  The last field is the outcome of \<^verbatim>\<open>print(f"Skipping {p.name}: ...")\<close> for this
  file: \<open>None\<close> when the line is written, the exception when the write raises (a
  closed stream, a name the console cannot encode).
\<close>

record fs_entry =
  path :: string
  is_file :: bool
  st_mtime :: real
  read_text_utf8 :: "exn + string"
  read_text_latin1 :: "exn + string"
  pdf_pages :: "exn + string option list"
  print_skipping :: "exn option"

text \<open>\<^verbatim>\<open>class Document\<close>: the text and the metadata dictionary.\<close>

record document =
  page_content :: string
  metadata :: "(string \<times> string) list"

text \<open>\<^verbatim>\<open>page.extract_text() or ""\<close>.\<close>

definition page_text :: "string option \<Rightarrow> string" where
  "page_text t = (case t of None \<Rightarrow> [] | Some s \<Rightarrow> s)"

text \<open>
  The body of the loop of \<^verbatim>\<open>load_local_documents\<close> for one path: \<open>Inl\<close> when an
  exception leaves the loop, \<open>Inr None\<close> for \<^verbatim>\<open>continue\<close>, \<open>Inr (Some d)\<close> when
  a document is appended. \<open>pypdf\<close> says whether \<^verbatim>\<open>PdfReader\<close> was imported. The
  \<^verbatim>\<open>print\<close> of the skip message stands inside the \<^verbatim>\<open>try\<close>: when it raises, the
  handler makes the placeholder and the document is appended.
\<close>

definition load_one :: "bool \<Rightarrow> fs_entry \<Rightarrow> exn + document option" where
  "load_one pypdf p =
     (if \<not> is_file p then Inr None
      else let suffix = py_lower (path_suffix (path p)) in
        if suffix \<in> set [''.txt'', ''.md'', ''.html''] then
          (case read_text_utf8 p of
             Inr text \<Rightarrow> Inr (Some \<lparr>page_content = text, metadata = [(''source'', path p)]\<rparr>)
           | Inl _ \<Rightarrow>
               (case read_text_latin1 p of
                  Inr text \<Rightarrow>
                    Inr (Some \<lparr>page_content = text, metadata = [(''source'', path p)]\<rparr>)
                | Inl e \<Rightarrow> Inl e))
        else if suffix = ''.pdf'' then
          (if pypdf then
             (case pdf_pages p of
                Inr pages \<Rightarrow>
                  (let text = join [CHR 0x0A, CHR 0x0A] (map page_text pages) in
                   if length (py_strip text) < 100 then
                     (case print_skipping p of
                        None \<Rightarrow> Inr None
                      | Some e \<Rightarrow>
                          Inr (Some \<lparr>page_content =
                                         ''[Failed to extract PDF '' @ path p @ '': ''
                                         @ exn_str e @ '']'',
                                       metadata = [(''source'', path p)]\<rparr>))
                   else Inr (Some \<lparr>page_content = text, metadata = [(''source'', path p)]\<rparr>))
              | Inl e \<Rightarrow>
                  Inr (Some \<lparr>page_content =
                                 ''[Failed to extract PDF '' @ path p @ '': '' @ exn_str e @ '']'',
                               metadata = [(''source'', path p)]\<rparr>))
           else
             Inr (Some \<lparr>page_content =
                            ''[pypdf not installed; cannot extract PDF '' @ path p @ '']'',
                          metadata = [(''source'', path p)]\<rparr>))
        else Inr None)"

text \<open>
  \<^verbatim>\<open>load_local_documents\<close>: the argument is
  \<^verbatim>\<open>sorted(Path(data_dir).rglob("*"))\<close>; the first exception ends the pass.
\<close>

fun load_local_documents :: "bool \<Rightarrow> fs_entry list \<Rightarrow> exn + document list" where
  "load_local_documents pypdf [] = Inr []"
| "load_local_documents pypdf (p # ps) =
     (case load_one pypdf p of
        Inl e \<Rightarrow> Inl e
      | Inr d \<Rightarrow>
          (case load_local_documents pypdf ps of
             Inl e \<Rightarrow> Inl e
           | Inr ds \<Rightarrow> Inr ((case d of None \<Rightarrow> [] | Some x \<Rightarrow> [x]) @ ds)))"

section \<open>Configuration\<close>

text \<open>
  \<^verbatim>\<open>int(s)\<close> for a string: surrounding whitespace is dropped (the ASCII blanks and,
  of the characters from 128 on, those that \<^verbatim>\<open>str.isspace\<close> accepts; not the
  separators \<open>0x1C\<close> to \<open>0x1F\<close>), one sign is allowed, then decimal digits, with
  single underscores allowed between digits, and at most 4300 digits. Anything else
  raises \<^verbatim>\<open>ValueError\<close>.
\<close>

definition py_int_isspace :: "char \<Rightarrow> bool" where
  "py_int_isspace c \<longleftrightarrow>
     c \<in> set [CHR 0x09, CHR 0x0A, CHR 0x0B, CHR 0x0C, CHR 0x0D, CHR 0x20, CHR 0x85, CHR 0xA0]"

definition py_int_strip :: "string \<Rightarrow> string" where
  "py_int_strip s = rev (dropWhile py_int_isspace (rev (dropWhile py_int_isspace s)))"

definition is_digit :: "char \<Rightarrow> bool" where
  "is_digit c \<longleftrightarrow> c \<in> set ''0123456789''"

definition digits_val :: "string \<Rightarrow> nat" where
  "digits_val ds = foldl (\<lambda>n c. 10 * n + (of_char c - 48)) 0 ds"

definition py_int :: "string \<Rightarrow> exn + int" where
  "py_int s =
     (let t = py_int_strip s;
          neg = (t \<noteq> [] \<and> hd t = CHR ''-'');
          body = (if t \<noteq> [] \<and> (hd t = CHR ''-'' \<or> hd t = CHR ''+'') then tl t else t);
          groups = split_on (CHR ''_'') body
      in if \<not> list_all (\<lambda>g. g \<noteq> [] \<and> list_all is_digit g) groups
         then Inl (ValueError (''invalid literal for int() with base 10: ''
                               @ [CHR 0x27] @ s @ [CHR 0x27]))
         else if length (concat groups) > 4300
         then Inl (ValueError ''Exceeds the limit (4300 digits) for integer string conversion'')
         else Inr ((if neg then - 1 else 1) * int (digits_val (concat groups))))"

text \<open>
  The splitter settings of \<^verbatim>\<open>config.py\<close>:
  \<^verbatim>\<open>CHUNK_SIZE = int(os.getenv("RAG_CHUNK_SIZE", 1000))\<close> and
  \<^verbatim>\<open>CHUNK_OVERLAP = int(os.getenv("RAG_CHUNK_OVERLAP", 200))\<close>, evaluated when the
  module is imported. The argument is the process environment.
\<close>

record config =
  CHUNK_SIZE :: int
  CHUNK_OVERLAP :: int

definition getenv_int :: "(string \<rightharpoonup> string) \<Rightarrow> string \<Rightarrow> int \<Rightarrow> exn + int" where
  "getenv_int environ name dflt =
     (case environ name of None \<Rightarrow> Inr dflt | Some s \<Rightarrow> py_int s)"

definition load_config :: "(string \<rightharpoonup> string) \<Rightarrow> exn + config" where
  "load_config environ =
     (case getenv_int environ ''RAG_CHUNK_SIZE'' 1000 of
        Inl e \<Rightarrow> Inl e
      | Inr chunk_size \<Rightarrow>
          (case getenv_int environ ''RAG_CHUNK_OVERLAP'' 200 of
             Inl e \<Rightarrow> Inl e
           | Inr overlap \<Rightarrow> Inr \<lparr>CHUNK_SIZE = chunk_size, CHUNK_OVERLAP = overlap\<rparr>))"

section \<open>The manifest\<close>

text \<open>
  \<^verbatim>\<open>int(x)\<close> for a float: truncation towards zero.
\<close>

definition py_int_of_float :: "real \<Rightarrow> int" where
  "py_int_of_float x = (if 0 \<le> x then \<lfloor>x\<rfloor> else \<lceil>x\<rceil>)"

text \<open>
  The manifest is a dictionary from \<^verbatim>\<open>str(p)\<close> to whole seconds. What
  \<^verbatim>\<open>json.load\<close> returns is either such a dictionary or some other JSON value, which
  is unequal to every manifest.
\<close>

type_synonym manifest = "string \<rightharpoonup> int"

datatype py_value = PyDict manifest | PyOther

text \<open>The file at \<^verbatim>\<open>MANIFEST_PATH\<close>.\<close>

datatype manifest_file = Missing | Unreadable exn | Corrupt | Stored py_value

text \<open>\<^verbatim>\<open>_read_manifest\<close>: every exception of \<^verbatim>\<open>open\<close> and \<^verbatim>\<open>json.load\<close> gives \<^verbatim>\<open>{}\<close>.\<close>

fun read_manifest :: "manifest_file \<Rightarrow> py_value" where
  "read_manifest Missing = PyDict Map.empty"
| "read_manifest (Unreadable e) = PyDict Map.empty"
| "read_manifest Corrupt = PyDict Map.empty"
| "read_manifest (Stored v) = v"

text \<open>
  \<^verbatim>\<open>_compute_manifest_from_files\<close>: the loop over
  \<^verbatim>\<open>sorted(Path(data_dir).rglob("*"))\<close>, with the dictionary built so far.
\<close>

fun manifest_loop :: "fs_entry list \<Rightarrow> manifest \<Rightarrow> manifest" where
  "manifest_loop [] manifest = manifest"
| "manifest_loop (p # ps) manifest =
     (if \<not> is_file p then manifest_loop ps manifest
      else manifest_loop ps (manifest(path p \<mapsto> py_int_of_float (st_mtime p))))"

definition compute_manifest_from_files :: "fs_entry list \<Rightarrow> manifest" where
  "compute_manifest_from_files fs = manifest_loop fs Map.empty"

section \<open>The index manager\<close>

text \<open>
  A handle on the vector store: the chunks of its collection, and whether it was given
  an embedding capability.
\<close>

datatype vector_store = VectorStore (stored: "document list") (can_embed: bool)

text \<open>
  What the process sees on disk: the entries under the data folder as
  \<^verbatim>\<open>sorted(Path(data_dir).rglob("*"))\<close> lists them, the manifest file, whether
  \<^verbatim>\<open>persist_directory\<close> exists, and the chunks stored in it (\<open>None\<close> before
  the first build). The index directory is not under the data folder, and
  \<^verbatim>\<open>persist_directory\<close> is \<^verbatim>\<open>CHROMA_DIR\<close>, as at every call in the repository.
\<close>

record world =
  files :: "fs_entry list"
  manifest_file :: manifest_file
  persist_exists :: bool
  index :: "document list option"

text \<open>
  The collaborators outside the repository, by what their calls return:
  whether \<^verbatim>\<open>pypdf\<close> was imported; \<^verbatim>\<open>RecursiveCharacterTextSplitter(chunk_size,
  chunk_overlap).split_documents(docs)\<close>; \<^verbatim>\<open>SentenceTransformerEmbeddings()\<close>
  (\<open>None\<close> when it is constructed); \<^verbatim>\<open>Chroma.from_documents\<close>, from the
  chunks already in the directory and the new ones to the chunks stored afterwards; and
  the three ways \<^verbatim>\<open>load_or_build\<close> calls the \<^verbatim>\<open>Chroma\<close> constructor.
\<close>

record env =
  pypdf :: bool
  split_documents :: "int \<Rightarrow> int \<Rightarrow> document list \<Rightarrow> exn + document list"
  new_embeddings :: "exn option"
  from_documents :: "document list option \<Rightarrow> document list \<Rightarrow> exn + document list"
  open_embedding_function :: "exn + vector_store"
  open_embedding :: "exn + vector_store"
  open_plain :: "exn + vector_store"

text \<open>\<^verbatim>\<open>needs_reindex\<close>.\<close>

definition needs_reindex :: "world \<Rightarrow> bool" where
  "needs_reindex w \<longleftrightarrow>
     read_manifest (manifest_file w) \<noteq> PyDict (compute_manifest_from_files (files w))"

text \<open>
  \<^verbatim>\<open>build_index\<close>: the result and the world afterwards. The write of the manifest
  is taken to succeed.
\<close>

definition build_index :: "config \<Rightarrow> env \<Rightarrow> world \<Rightarrow> (exn + vector_store) \<times> world" where
  "build_index cfg ev w =
     (case load_local_documents (pypdf ev) (files w) of
        Inl e \<Rightarrow> (Inl e, w)
      | Inr docs \<Rightarrow>
          if docs = [] then
            (Inl (RuntimeError
               ''No documents found to index. Add files in ./data/ and try again.''), w)
          else
            (case split_documents ev (CHUNK_SIZE cfg) (CHUNK_OVERLAP cfg) docs of
               Inl e \<Rightarrow> (Inl e, w)
             | Inr splits \<Rightarrow>
                 (case new_embeddings ev of
                    Some e \<Rightarrow> (Inl e, w)
                  | None \<Rightarrow>
                      (case from_documents ev (index w) splits of
                         Inl e \<Rightarrow> (Inl e, w)
                       | Inr chunks \<Rightarrow>
                           (Inr (VectorStore chunks True),
                            w\<lparr>manifest_file :=
                                 Stored (PyDict (compute_manifest_from_files (files w))),
                               persist_exists := True,
                               index := Some chunks\<rparr>)))))"

text \<open>
  \<^verbatim>\<open>load_or_build\<close>. \<open>tried_errors\<close> is the list the source appends to; the last
  \<^verbatim>\<open>raise\<close> formats it into the message.
\<close>

definition load_failed :: "exn list \<Rightarrow> exn" where
  "load_failed tried_errors =
     RuntimeError (''Failed to load or build Chroma vector store. Errors: ''
                   @ exn_list_repr tried_errors)"

definition load_or_build :: "config \<Rightarrow> env \<Rightarrow> world \<Rightarrow> (exn + vector_store) \<times> world" where
  "load_or_build cfg ev w =
     (if \<not> persist_exists w then build_index cfg ev w
      else if needs_reindex w then build_index cfg ev w
      else
        (case new_embeddings ev of
           Some e \<Rightarrow> (Inl e, w)
         | None \<Rightarrow>
             (case open_embedding_function ev of
                Inr vs \<Rightarrow> (Inr vs, w)
              | Inl e1 \<Rightarrow>
                  (case open_embedding ev of
                     Inr vs \<Rightarrow> (Inr vs, w)
                   | Inl e2 \<Rightarrow>
                       (case open_plain ev of
                          Inr vs \<Rightarrow> (Inr vs, w)
                        | Inl e3 \<Rightarrow>
                            (case build_index cfg ev w of
                               (Inr vs, w') \<Rightarrow> (Inr vs, w')
                             | (Inl e4, w') \<Rightarrow>
                                 (Inl (load_failed [e1, e2, e3, e4]), w')))))))"

section \<open>Retrieval and its diagnostics\<close>

text \<open>\<^verbatim>\<open>QuerySource\<close> of \<^verbatim>\<open>schemas.py\<close>.\<close>

record query_source =
  source :: string
  snippet :: string

text \<open>
  The loop of \<^verbatim>\<open>query\<close> over the retrieved chunks: for each chunk the
  \<^verbatim>\<open>QuerySource\<close> and the context piece. \<^verbatim>\<open>QuerySource(source=None, ...)\<close> is
  refused by the schema, which declares \<^verbatim>\<open>source: str\<close>.
\<close>

definition make_snippet :: "string \<Rightarrow> string" where
  "make_snippet content =
     take 800 (map (\<lambda>c. if c = CHR 0x0A then CHR '' '' else c) (py_strip content))"

fun retrieved_loop :: "document list \<Rightarrow> exn + (query_source list \<times> string list)" where
  "retrieved_loop [] = Inr ([], [])"
| "retrieved_loop (d # ds) =
     (case map_of (metadata d) ''source'' of
        None \<Rightarrow> Inl (ValidationError ''source: Input should be a valid string'')
      | Some src \<Rightarrow>
          (case retrieved_loop ds of
             Inl e \<Rightarrow> Inl e
           | Inr (sources, context_pieces) \<Rightarrow>
               Inr (\<lparr>source = src, snippet = make_snippet (page_content d)\<rparr> # sources,
                    (''Source: '' @ src @ [CHR 0x0A] @ page_content d) # context_pieces)))"

text \<open>
  \<^verbatim>\<open>{Path(m.get("source", "")).name for m in metadatas if m.get("source")}\<close>, as the
  list of its elements before duplicates are dropped.
\<close>

definition metadata_names :: "(string \<times> string) list list \<Rightarrow> string list" where
  "metadata_names metadatas =
     List.map_filter
       (\<lambda>m. case map_of m ''source'' of
               None \<Rightarrow> None
             | Some s \<Rightarrow> if s = [] then None else Some (path_name s))
       metadatas"

text \<open>
  What lines 89 to 111 of \<^verbatim>\<open>query\<close> leave in the five lists. The arguments are
  \<^verbatim>\<open>req.use_rag\<close> and the outcomes of \<^verbatim>\<open>vector_store.similarity_search(req.query,
  k=req.k)\<close>, of \<^verbatim>\<open>vector_store._collection.get(include=["metadatas"]).get("metadatas",
  [])\<close> and of \<^verbatim>\<open>Path(DATA_DIR).rglob("*")\<close>. An exception of the search is not
  caught; the two \<^verbatim>\<open>try\<close> blocks catch every exception of the other two.
\<close>

record rag_section =
  sources :: "query_source list"
  context_pieces :: "string list"
  all_sources :: "string list"
  data_files :: "string list"
  no_text_files :: "string list"

definition query_rag_section ::
  "bool \<Rightarrow> (exn + document list) \<Rightarrow> (exn + (string \<times> string) list list) \<Rightarrow>
   (exn + fs_entry list) \<Rightarrow> exn + rag_section" where
  "query_rag_section use_rag search collection_get rglob =
     (if \<not> use_rag then
        Inr \<lparr>sources = [], context_pieces = [], all_sources = [], data_files = [],
             no_text_files = []\<rparr>
      else
        (case search of
           Inl e \<Rightarrow> Inl e
         | Inr retrieved \<Rightarrow>
             (case retrieved_loop retrieved of
                Inl e \<Rightarrow> Inl e
              | Inr (srcs, pieces) \<Rightarrow>
                  (let indexed = (case collection_get of
                                    Inr metadatas \<Rightarrow> sort (remdups (metadata_names metadatas))
                                  | Inl _ \<Rightarrow> []);
                       present = (case rglob of
                                    Inr ps \<Rightarrow> sort (map (\<lambda>p. path_name (path p)) (filter is_file ps))
                                  | Inl _ \<Rightarrow> [])
                   in Inr \<lparr>sources = srcs, context_pieces = pieces, all_sources = indexed,
                           data_files = present,
                           no_text_files =
                             (if present \<noteq> [] then filter (\<lambda>name. name \<notin> set indexed) present
                              else [])\<rparr>))))"

section \<open>Example folders and collaborators\<close>

text \<open>
  A small data folder: a text file, the same file touched within the same second and
  a second later, an image, a text file that cannot be opened, a markdown file that is
  not UTF-8, a damaged PDF, a scanned PDF without text and a PDF with one hundred
  characters of text, the last two with the same name in two folders.
\<close>

definition ex_notes :: fs_entry where
  "ex_notes = \<lparr>path = ''data/notes.txt'', is_file = True, st_mtime = 4001 / 4,
               read_text_utf8 = Inr ''offline notes'', read_text_latin1 = Inr ''offline notes'',
               pdf_pages = Inl (PdfError ''EOF marker not found''),
               print_skipping = None\<rparr>"

definition ex_notes_touched :: fs_entry where
  "ex_notes_touched = ex_notes\<lparr>st_mtime := 4003 / 4\<rparr>"

definition ex_notes_later :: fs_entry where
  "ex_notes_later = ex_notes\<lparr>st_mtime := 1001\<rparr>"

definition ex_image :: fs_entry where
  "ex_image = \<lparr>path = ''data/scan.png'', is_file = True, st_mtime = 2000,
               read_text_utf8 = Inl (UnicodeDecodeError ''invalid start byte''),
               read_text_latin1 = Inr [CHR 0x89, CHR ''P'', CHR ''N'', CHR ''G''],
               pdf_pages = Inl (PdfError ''EOF marker not found''),
               print_skipping = None\<rparr>"

definition ex_locked :: fs_entry where
  "ex_locked = \<lparr>path = ''data/locked.txt'', is_file = True, st_mtime = 3000,
                read_text_utf8 = Inl (OSError ''[Errno 13] Permission denied''),
                read_text_latin1 = Inl (OSError ''[Errno 13] Permission denied''),
                pdf_pages = Inl (OSError ''[Errno 13] Permission denied''),
               print_skipping = None\<rparr>"

definition ex_menu :: fs_entry where
  "ex_menu = \<lparr>path = ''data/menu.md'', is_file = True, st_mtime = 3500,
              read_text_utf8 = Inl (UnicodeDecodeError ''invalid continuation byte''),
              read_text_latin1 = Inr (''caf'' @ [CHR 0xE9]),
              pdf_pages = Inl (PdfError ''EOF marker not found''),
               print_skipping = None\<rparr>"

definition ex_broken_pdf :: fs_entry where
  "ex_broken_pdf = \<lparr>path = ''data/broken.pdf'', is_file = True, st_mtime = 4000,
                    read_text_utf8 = Inl (UnicodeDecodeError ''invalid start byte''),
                    read_text_latin1 = Inr ''%PDF-1.4'',
                    pdf_pages = Inl (PdfError ''EOF marker not found''),
               print_skipping = None\<rparr>"

definition ex_scanned_pdf :: fs_entry where
  "ex_scanned_pdf = \<lparr>path = ''data/b/x.pdf'', is_file = True, st_mtime = 5000,
                     read_text_utf8 = Inl (UnicodeDecodeError ''invalid start byte''),
                     read_text_latin1 = Inr ''%PDF-1.4'',
                     pdf_pages = Inr [None],
               print_skipping = None\<rparr>"

definition ex_scanned_unprinted :: fs_entry where
  "ex_scanned_unprinted =
     ex_scanned_pdf\<lparr>print_skipping := Some (ValueError ''I/O operation on closed file'')\<rparr>"

definition ex_text_pdf :: fs_entry where
  "ex_text_pdf = \<lparr>path = ''data/a/x.pdf'', is_file = True, st_mtime = 6000,
                  read_text_utf8 = Inl (UnicodeDecodeError ''invalid start byte''),
                  read_text_latin1 = Inr ''%PDF-1.4'',
                  pdf_pages = Inr [Some (replicate 100 (CHR ''a''))],
               print_skipping = None\<rparr>"

text \<open>
  Collaborators: a splitter that leaves short documents whole, an embedding provider
  that loads, a store that takes the chunks it is given, and three constructor calls
  that all fail. In \<open>ex_env_offline\<close> the embedding model cannot be loaded; in
  \<open>ex_env_opens\<close> the first constructor call succeeds and the splitter refuses
  its settings.
\<close>

definition ex_env :: env where
  "ex_env = \<lparr>pypdf = True,
             split_documents = (\<lambda>chunk_size chunk_overlap docs. Inr docs),
             new_embeddings = None,
             from_documents = (\<lambda>existing splits. Inr splits),
             open_embedding_function = Inl (TypeError ''unexpected keyword embedding_function''),
             open_embedding = Inl (TypeError ''unexpected keyword embedding''),
             open_plain = Inl (ValueError ''no such table: collections'')\<rparr>"

definition ex_env_offline :: env where
  "ex_env_offline = ex_env\<lparr>new_embeddings := Some (OSError ''model all-MiniLM-L6-v2 not found'')\<rparr>"

definition ex_env_opens :: env where
  "ex_env_opens =
     ex_env\<lparr>split_documents :=
               (\<lambda>chunk_size chunk_overlap docs.
                  if chunk_overlap > chunk_size then Inl (ValueError ''larger chunk overlap than size'')
                  else Inr docs),
            open_embedding_function := Inr (VectorStore [] True)\<rparr>"

definition ex_cfg :: config where
  "ex_cfg = \<lparr>CHUNK_SIZE = 1000, CHUNK_OVERLAP = 200\<rparr>"

text \<open>
  Worlds: before the first build; an index directory whose manifest is missing over an
  empty data folder; and an index directory with a manifest that matches the folder.
\<close>

definition ex_world :: world where
  "ex_world = \<lparr>files = [ex_notes, ex_image], manifest_file = Missing,
               persist_exists = False, index = None\<rparr>"

definition ex_world_empty :: world where
  "ex_world_empty = \<lparr>files = [], manifest_file = Missing,
                     persist_exists = True, index = Some []\<rparr>"

definition ex_world_fresh :: world where
  "ex_world_fresh =
     \<lparr>files = [ex_notes],
      manifest_file = Stored (PyDict (compute_manifest_from_files [ex_notes])),
      persist_exists = True,
      index = Some [\<lparr>page_content = ''offline notes'',
                     metadata = [(''source'', ''data/notes.txt'')]\<rparr>]\<rparr>"

section \<open>Facts about the manifest\<close>

lemma manifest_loop_skip:
  "\<forall>p \<in> set fs. is_file p \<longrightarrow> path p \<noteq> k \<Longrightarrow> manifest_loop fs m k = m k"
  by (induction fs arbitrary: m) auto

lemma manifest_loop_other:
  "k \<notin> path ` {p \<in> set fs. is_file p} \<Longrightarrow> manifest_loop fs m k = m k"
  by (rule manifest_loop_skip) auto

lemma manifest_loop_dom:
  "dom (manifest_loop fs m) = dom m \<union> path ` {p \<in> set fs. is_file p}"
  by (induction fs arbitrary: m) auto

lemma manifest_loop_lookup:
  "distinct (map path fs) \<Longrightarrow> p \<in> set fs \<Longrightarrow> is_file p \<Longrightarrow>
   manifest_loop fs m (path p) = Some (py_int_of_float (st_mtime p))"
proof (induction fs arbitrary: m)
  case Nil
  then show ?case by simp
next
  case (Cons q qs)
  show ?case
  proof (cases "p = q")
    case True
    from Cons.prems(1) have "path q \<notin> path ` {x \<in> set qs. is_file x}" by auto
    then have "manifest_loop qs (m(path q \<mapsto> py_int_of_float (st_mtime q))) (path q)
               = Some (py_int_of_float (st_mtime q))"
      by (simp add: manifest_loop_other)
    with True Cons.prems(3) show ?thesis by simp
  next
    case False
    with Cons.prems have "p \<in> set qs" "distinct (map path qs)" by auto
    with Cons.IH Cons.prems(3) show ?thesis by simp
  qed
qed

lemma compute_manifest_dom:
  "dom (compute_manifest_from_files fs) = path ` {p \<in> set fs. is_file p}"
  by (simp add: compute_manifest_from_files_def manifest_loop_dom)

lemma compute_manifest_lookup:
  "distinct (map path fs) \<Longrightarrow> p \<in> set fs \<Longrightarrow> is_file p \<Longrightarrow>
   compute_manifest_from_files fs (path p) = Some (py_int_of_float (st_mtime p))"
  by (simp add: compute_manifest_from_files_def manifest_loop_lookup)

lemma compute_manifest_empty_iff:
  "compute_manifest_from_files fs = Map.empty \<longleftrightarrow> (\<forall>p \<in> set fs. \<not> is_file p)"
proof -
  have "compute_manifest_from_files fs = Map.empty \<longleftrightarrow> dom (compute_manifest_from_files fs) = {}"
    by simp
  also have "\<dots> \<longleftrightarrow> (\<forall>p \<in> set fs. \<not> is_file p)"
    by (auto simp: compute_manifest_dom)
  finally show ?thesis .
qed

lemma build_index_ok:
  "build_index cfg ev w = (Inr vs, w') \<Longrightarrow>
   \<exists>docs splits chunks.
     load_local_documents (pypdf ev) (files w) = Inr docs \<and> docs \<noteq> [] \<and>
     split_documents ev (CHUNK_SIZE cfg) (CHUNK_OVERLAP cfg) docs = Inr splits \<and>
     new_embeddings ev = None \<and>
     from_documents ev (index w) splits = Inr chunks \<and>
     vs = VectorStore chunks True \<and>
     w' = w\<lparr>manifest_file := Stored (PyDict (compute_manifest_from_files (files w))),
            persist_exists := True, index := Some chunks\<rparr>"
  by (auto simp: build_index_def split: sum.splits if_splits option.splits)

lemma manifests_differ_iff:
  assumes d: "distinct (map path fs)" and d': "distinct (map path fs')"
  shows "compute_manifest_from_files fs' \<noteq> compute_manifest_from_files fs \<longleftrightarrow>
     (\<exists>p\<in>set fs. \<exists>p'\<in>set fs'. is_file p \<and> is_file p' \<and> path p = path p' \<and>
         py_int_of_float (st_mtime p') \<noteq> py_int_of_float (st_mtime p))
     \<or> (\<exists>p'\<in>set fs'. is_file p' \<and> path p' \<notin> path ` {p \<in> set fs. is_file p})
     \<or> (\<exists>p\<in>set fs. is_file p \<and> path p \<notin> path ` {p' \<in> set fs'. is_file p'})"
    (is "?L \<longleftrightarrow> ?C \<or> ?A \<or> ?R")
proof
  assume ne: ?L
  show "?C \<or> ?A \<or> ?R"
  proof (rule ccontr)
    assume n: "\<not> (?C \<or> ?A \<or> ?R)"
    have "compute_manifest_from_files fs' k = compute_manifest_from_files fs k" for k
    proof (cases "k \<in> path ` {p \<in> set fs. is_file p}")
      case True
      then obtain p where p: "p \<in> set fs" "is_file p" "k = path p" by auto
      with n obtain p' where p': "p' \<in> set fs'" "is_file p'" "path p' = k" by auto
      from n p p' have "py_int_of_float (st_mtime p') = py_int_of_float (st_mtime p)" by auto
      with p p' d d' show ?thesis
        using compute_manifest_lookup [of fs p] compute_manifest_lookup [of fs' p'] by simp
    next
      case False
      with n have "k \<notin> path ` {p' \<in> set fs'. is_file p'}" by auto
      with False show ?thesis
        using compute_manifest_dom [of fs] compute_manifest_dom [of fs']
        by (metis domIff)
    qed
    with ne show False by (simp add: fun_eq_iff)
  qed
next
  assume "?C \<or> ?A \<or> ?R"
  then consider (c) ?C | (a) ?A | (r) ?R by blast
  then show ?L
  proof cases
    case c
    then obtain p p' where "p \<in> set fs" "p' \<in> set fs'" "is_file p" "is_file p'"
      "path p = path p'" "py_int_of_float (st_mtime p') \<noteq> py_int_of_float (st_mtime p)" by blast
    then show ?thesis
      using compute_manifest_lookup [OF d, of p] compute_manifest_lookup [OF d', of p'] by auto
  next
    case a
    then show ?thesis
      using compute_manifest_dom [of fs] compute_manifest_dom [of fs'] by (metis (no_types, lifting) image_eqI mem_Collect_eq)
  next
    case r
    then show ?thesis
      using compute_manifest_dom [of fs] compute_manifest_dom [of fs'] by (metis (no_types, lifting) image_eqI mem_Collect_eq)
  qed
qed

section \<open>Facts about the extraction pass\<close>

lemma load_one_source:
  "load_one b p = Inr (Some d) \<Longrightarrow> is_file p \<and> metadata d = [(''source'', path p)]"
  by (auto simp: load_one_def Let_def split: if_splits sum.splits option.splits)

lemma load_local_documents_member:
  "load_local_documents b fs = Inr docs \<Longrightarrow> d \<in> set docs \<longleftrightarrow> (\<exists>p \<in> set fs. load_one b p = Inr (Some d))"
proof (induction fs arbitrary: docs)
  case Nil
  then show ?case by auto
next
  case (Cons q qs)
  then show ?case
    by (auto split: sum.splits option.splits)
qed

lemma load_local_documents_source:
  assumes "load_local_documents b fs = Inr docs" "d \<in> set docs"
  shows "\<exists>p \<in> set fs. is_file p \<and> metadata d = [(''source'', path p)]"
  using assms load_local_documents_member [OF assms(1), of d] load_one_source by blast

lemma load_one_raises:
  "load_one b p = Inl e \<Longrightarrow>
     is_file p \<and> py_lower (path_suffix (path p)) \<in> set [''.txt'', ''.md'', ''.html'']
     \<and> (\<exists>e'. read_text_utf8 p = Inl e') \<and> read_text_latin1 p = Inl e"
  by (auto simp: load_one_def Let_def split: if_splits sum.splits option.splits)

lemma load_local_documents_total:
  "\<forall>p \<in> set fs. \<forall>e. load_one b p \<noteq> Inl e \<Longrightarrow> \<exists>docs. load_local_documents b fs = Inr docs"
proof (induction fs)
  case Nil
  then show ?case by simp
next
  case (Cons q qs)
  then obtain ds where ds: "load_local_documents b qs = Inr ds" by auto
  from Cons.prems obtain d where "load_one b q = Inr d"
    by (cases "load_one b q") auto
  with ds show ?case by simp
qed

lemma load_local_documents_raises:
  "load_local_documents b fs = Inl e \<Longrightarrow> \<exists>p \<in> set fs. load_one b p = Inl e"
  by (induction fs) (auto split: sum.splits)

section \<open>The example folder, evaluated\<close>

lemmas ex_defs = ex_notes_def ex_notes_touched_def ex_notes_later_def ex_image_def ex_locked_def
  ex_menu_def ex_broken_pdf_def ex_scanned_pdf_def ex_text_pdf_def ex_env_def ex_env_offline_def
  ex_env_opens_def ex_cfg_def ex_world_def ex_world_empty_def ex_world_fresh_def

lemmas path_defs = path_name_def path_suffix_def py_lower_def py_lower_char_def

lemma ex_world_docs:
  "load_local_documents True [ex_notes, ex_image] =
     Inr [\<lparr>page_content = ''offline notes'', metadata = [(''source'', ''data/notes.txt'')]\<rparr>]"
  by (simp add: ex_defs load_one_def path_defs)

lemma ex_world_manifest:
  "compute_manifest_from_files [ex_notes, ex_image] =
     [''data/notes.txt'' \<mapsto> 1000, ''data/scan.png'' \<mapsto> 2000]"
  by (simp add: ex_defs compute_manifest_from_files_def py_int_of_float_def)

lemma ex_world_build:
  "build_index ex_cfg ex_env ex_world =
     (Inr (VectorStore [\<lparr>page_content = ''offline notes'',
                         metadata = [(''source'', ''data/notes.txt'')]\<rparr>] True),
      \<lparr>files = [ex_notes, ex_image],
       manifest_file = Stored (PyDict [''data/notes.txt'' \<mapsto> 1000, ''data/scan.png'' \<mapsto> 2000]),
       persist_exists = True,
       index = Some [\<lparr>page_content = ''offline notes'',
                      metadata = [(''source'', ''data/notes.txt'')]\<rparr>]\<rparr>)"
  using ex_world_docs ex_world_manifest
  by (simp add: build_index_def ex_world_def ex_env_def ex_cfg_def)

section \<open>Staleness detection\<close>

text \<open>
  C3, as amended. After a build that returned a store, \<open>needs_reindex\<close> is false while
  the folder stays as it was. For any later folder contents (paths unique before and
  after) it is true exactly when a regular file has a different whole-second
  modification time, or a regular file was added, or a regular file was removed. The
  comparison is on \<^verbatim>\<open>int(st_mtime)\<close>, so a change inside the same second does not
  count.
\<close>

theorem needs_reindex_after_build:
  assumes "build_index cfg ev w = (Inr vs, w')"
  shows "\<not> needs_reindex w'
       \<and> (\<forall>fs'. distinct (map path (files w)) \<and> distinct (map path fs') \<longrightarrow>
            (needs_reindex (w'\<lparr>files := fs'\<rparr>) \<longleftrightarrow>
               (\<exists>p\<in>set (files w). \<exists>p'\<in>set fs'. is_file p \<and> is_file p' \<and> path p = path p' \<and>
                   py_int_of_float (st_mtime p') \<noteq> py_int_of_float (st_mtime p))
               \<or> (\<exists>p'\<in>set fs'. is_file p' \<and> path p' \<notin> path ` {p \<in> set (files w). is_file p})
               \<or> (\<exists>p\<in>set (files w). is_file p \<and> path p \<notin> path ` {p' \<in> set fs'. is_file p'})))"
proof -
  from build_index_ok [OF assms] obtain chunks where
    w': "w' = w\<lparr>manifest_file := Stored (PyDict (compute_manifest_from_files (files w))),
                persist_exists := True, index := Some chunks\<rparr>"
    by blast
  have same: "\<not> needs_reindex w'"
    by (simp add: w' needs_reindex_def)
  have "needs_reindex (w'\<lparr>files := fs'\<rparr>) \<longleftrightarrow>
          compute_manifest_from_files fs' \<noteq> compute_manifest_from_files (files w)" for fs'
    by (auto simp: w' needs_reindex_def)
  with same show ?thesis
    using manifests_differ_iff [of "files w"] by simp
qed

theorem needs_reindex_after_build_witness:
  "\<not> needs_reindex (snd (build_index ex_cfg ex_env ex_world))
   \<and> needs_reindex ((snd (build_index ex_cfg ex_env ex_world))\<lparr>files := [ex_notes_later, ex_image]\<rparr>)
   \<and> needs_reindex ((snd (build_index ex_cfg ex_env ex_world))\<lparr>files := [ex_notes, ex_image, ex_menu]\<rparr>)
   \<and> needs_reindex ((snd (build_index ex_cfg ex_env ex_world))\<lparr>files := [ex_notes]\<rparr>)"
proof -
  have b: "build_index ex_cfg ex_env ex_world =
     (Inr (VectorStore [\<lparr>page_content = ''offline notes'',
                         metadata = [(''source'', ''data/notes.txt'')]\<rparr>] True),
      snd (build_index ex_cfg ex_env ex_world))"
    by (simp add: ex_world_build)
  note t = needs_reindex_after_build [OF b]
  have d: "distinct (map path (files ex_world))"
    by (simp add: ex_world_def ex_notes_def ex_image_def)
  have 1: "needs_reindex ((snd (build_index ex_cfg ex_env ex_world))\<lparr>files := [ex_notes_later, ex_image]\<rparr>)"
  proof -
    have "distinct (map path [ex_notes_later, ex_image])"
      by (simp add: ex_notes_later_def ex_notes_def ex_image_def)
    moreover have "\<exists>p\<in>set (files ex_world). \<exists>p'\<in>set [ex_notes_later, ex_image].
        is_file p \<and> is_file p' \<and> path p = path p' \<and>
        py_int_of_float (st_mtime p') \<noteq> py_int_of_float (st_mtime p)"
      by (simp add: ex_world_def ex_notes_later_def ex_notes_def ex_image_def py_int_of_float_def)
    ultimately show ?thesis using t d by blast
  qed
  have 2: "needs_reindex ((snd (build_index ex_cfg ex_env ex_world))\<lparr>files := [ex_notes, ex_image, ex_menu]\<rparr>)"
  proof -
    have "distinct (map path [ex_notes, ex_image, ex_menu])"
      by (simp add: ex_menu_def ex_notes_def ex_image_def)
    moreover have "\<exists>p'\<in>set [ex_notes, ex_image, ex_menu]. is_file p' \<and>
        path p' \<notin> path ` {p \<in> set (files ex_world). is_file p}"
      by (auto simp: ex_world_def ex_menu_def ex_notes_def ex_image_def)
    ultimately show ?thesis using t d by blast
  qed
  have 3: "needs_reindex ((snd (build_index ex_cfg ex_env ex_world))\<lparr>files := [ex_notes]\<rparr>)"
  proof -
    have "distinct (map path [ex_notes])" by simp
    moreover have "\<exists>p\<in>set (files ex_world). is_file p \<and>
        path p \<notin> path ` {p' \<in> set [ex_notes]. is_file p'}"
      by (auto simp: ex_world_def ex_notes_def ex_image_def)
    ultimately show ?thesis using t d by blast
  qed
  from t 1 2 3 show ?thesis by blast
qed

text \<open>
  C3 as stated fails: the notes file is touched a half second later, inside the same
  second, and \<open>needs_reindex\<close> stays false.
\<close>

theorem needs_reindex_same_second_counterexample:
  "fst (build_index ex_cfg ex_env ex_world) =
     Inr (VectorStore [\<lparr>page_content = ''offline notes'',
                        metadata = [(''source'', ''data/notes.txt'')]\<rparr>] True)
   \<and> path ex_notes_touched = path ex_notes
   \<and> st_mtime ex_notes_touched \<noteq> st_mtime ex_notes
   \<and> \<not> needs_reindex
        ((snd (build_index ex_cfg ex_env ex_world))\<lparr>files := [ex_notes_touched, ex_image]\<rparr>)"
proof -
  have "compute_manifest_from_files [ex_notes_touched, ex_image] =
          [''data/notes.txt'' \<mapsto> 1000, ''data/scan.png'' \<mapsto> 2000]"
    by (simp add: ex_notes_touched_def ex_notes_def ex_image_def compute_manifest_from_files_def
        py_int_of_float_def)
  then show ?thesis
    by (simp add: ex_world_build needs_reindex_def) (simp add: ex_notes_touched_def ex_notes_def)
qed

text \<open>
  C4, as amended. When the manifest file is missing, unreadable or corrupt,
  \<^verbatim>\<open>_read_manifest\<close> returns the empty dictionary instead of raising, and
  \<open>needs_reindex\<close> is true exactly when the data folder holds at least one regular
  file.
\<close>

theorem needs_reindex_manifest_unusable:
  assumes "manifest_file w = Missing \<or> (\<exists>e. manifest_file w = Unreadable e) \<or> manifest_file w = Corrupt"
  shows "read_manifest (manifest_file w) = PyDict Map.empty
       \<and> (needs_reindex w \<longleftrightarrow> (\<exists>p \<in> set (files w). is_file p))"
proof -
  from assms have r: "read_manifest (manifest_file w) = PyDict Map.empty" by auto
  have "needs_reindex w \<longleftrightarrow> compute_manifest_from_files (files w) \<noteq> Map.empty"
    unfolding needs_reindex_def r by auto
  with r show ?thesis by (simp add: compute_manifest_empty_iff)
qed

theorem needs_reindex_manifest_unusable_witness:
  "read_manifest (manifest_file ex_world) = PyDict Map.empty \<and> needs_reindex ex_world"
proof -
  have "manifest_file ex_world = Missing \<or> (\<exists>e. manifest_file ex_world = Unreadable e)
        \<or> manifest_file ex_world = Corrupt"
    by (simp add: ex_world_def)
  from needs_reindex_manifest_unusable [OF this] show ?thesis
    by (simp add: ex_world_def ex_notes_def)
qed

text \<open>
  C4 as stated fails on an empty data folder: the missing manifest reads as empty, the
  fresh manifest is empty too, and \<open>needs_reindex\<close> is false.
\<close>

theorem needs_reindex_empty_root_counterexample:
  "manifest_file ex_world_empty = Missing \<and> \<not> needs_reindex ex_world_empty"
  by (simp add: ex_world_empty_def needs_reindex_def compute_manifest_from_files_def)

text \<open>
  C9, as amended. After a build that returned a store, the manifest file holds the
  manifest computed from the folder: its keys are the paths of all regular files under
  the data folder, each mapped to \<^verbatim>\<open>int(st_mtime)\<close> of that file (paths unique). The
  sources of the documents of that build are among the keys, but a regular file that
  gave no document is a key as well.
\<close>

theorem manifest_after_build:
  assumes "build_index cfg ev w = (Inr vs, w')" and "distinct (map path (files w))"
  shows "manifest_file w' = Stored (PyDict (compute_manifest_from_files (files w)))
       \<and> dom (compute_manifest_from_files (files w)) = path ` {p \<in> set (files w). is_file p}
       \<and> (\<forall>p \<in> set (files w). is_file p \<longrightarrow>
            compute_manifest_from_files (files w) (path p) = Some (py_int_of_float (st_mtime p)))
       \<and> (\<exists>docs. load_local_documents (pypdf ev) (files w) = Inr docs
            \<and> (\<forall>d \<in> set docs. \<exists>p \<in> set (files w). is_file p \<and> metadata d = [(''source'', path p)]))"
proof -
  from build_index_ok [OF assms(1)] obtain docs chunks where
    docs: "load_local_documents (pypdf ev) (files w) = Inr docs" and
    w': "w' = w\<lparr>manifest_file := Stored (PyDict (compute_manifest_from_files (files w))),
                persist_exists := True, index := Some chunks\<rparr>"
    by blast
  have "manifest_file w' = Stored (PyDict (compute_manifest_from_files (files w)))"
    using w' by simp
  moreover have "dom (compute_manifest_from_files (files w)) = path ` {p \<in> set (files w). is_file p}"
    by (rule compute_manifest_dom)
  moreover have "\<forall>p \<in> set (files w). is_file p \<longrightarrow>
      compute_manifest_from_files (files w) (path p) = Some (py_int_of_float (st_mtime p))"
    using compute_manifest_lookup [OF assms(2)] by blast
  moreover have "\<forall>d \<in> set docs. \<exists>p \<in> set (files w). is_file p \<and> metadata d = [(''source'', path p)]"
    using load_local_documents_source [OF docs] by blast
  ultimately show ?thesis using docs by blast
qed

theorem manifest_after_build_witness:
  "manifest_file (snd (build_index ex_cfg ex_env ex_world)) =
     Stored (PyDict (compute_manifest_from_files (files ex_world)))
   \<and> dom (compute_manifest_from_files (files ex_world)) = {''data/notes.txt'', ''data/scan.png''}
   \<and> compute_manifest_from_files (files ex_world) ''data/scan.png'' = Some 2000"
proof -
  have d: "distinct (map path (files ex_world))"
    by (simp add: ex_world_def ex_notes_def ex_image_def)
  have b: "build_index ex_cfg ex_env ex_world =
     (Inr (VectorStore [\<lparr>page_content = ''offline notes'',
                         metadata = [(''source'', ''data/notes.txt'')]\<rparr>] True),
      snd (build_index ex_cfg ex_env ex_world))"
    by (simp add: ex_world_build)
  note t = manifest_after_build [OF b d]
  have "ex_image \<in> set (files ex_world) \<and> is_file ex_image"
    by (simp add: ex_world_def ex_image_def)
  with t have "compute_manifest_from_files (files ex_world) (path ex_image)
               = Some (py_int_of_float (st_mtime ex_image))"
    by blast
  then have "compute_manifest_from_files (files ex_world) ''data/scan.png'' = Some 2000"
    by (simp add: ex_image_def py_int_of_float_def)
  moreover have "path ` {p \<in> set (files ex_world). is_file p} = {''data/notes.txt'', ''data/scan.png''}"
  proof -
    have "{p \<in> set (files ex_world). is_file p} = {ex_notes, ex_image}"
      by (auto simp: ex_world_def ex_notes_def ex_image_def)
    then have "path ` {p \<in> set (files ex_world). is_file p} = {path ex_notes, path ex_image}"
      by simp
    then show ?thesis by (simp add: ex_notes_def ex_image_def)
  qed
  ultimately show ?thesis using t by simp
qed

text \<open>
  C9 as stated fails: the image gives no document, and the manifest written by the
  build has an entry for it.
\<close>

theorem manifest_keys_counterexample:
  "load_local_documents (pypdf ex_env) (files ex_world) =
     Inr [\<lparr>page_content = ''offline notes'', metadata = [(''source'', ''data/notes.txt'')]\<rparr>]
   \<and> manifest_file (snd (build_index ex_cfg ex_env ex_world)) =
       Stored (PyDict [''data/notes.txt'' \<mapsto> 1000, ''data/scan.png'' \<mapsto> 2000])
   \<and> fst (build_index ex_cfg ex_env ex_world) =
       Inr (VectorStore [\<lparr>page_content = ''offline notes'',
                          metadata = [(''source'', ''data/notes.txt'')]\<rparr>] True)"
  using ex_world_docs by (simp add: ex_world_build) (simp add: ex_world_def ex_env_def)

section \<open>The extraction pass\<close>

text \<open>
  What the pass does guarantee. When every regular text, markdown or HTML file can be
  read in at least one of the two encodings, the pass returns its documents: a PDF whose
  extraction raised gives a document whose content is the placeholder with the message
  of the exception, and a text file that is not UTF-8 gives a document with its latin-1
  reading.
\<close>

theorem extraction_pass_survives:
  assumes "\<forall>p \<in> set fs.
             is_file p \<and> py_lower (path_suffix (path p)) \<in> set [''.txt'', ''.md'', ''.html'']
             \<longrightarrow> (\<exists>t. read_text_utf8 p = Inr t) \<or> (\<exists>t. read_text_latin1 p = Inr t)"
  shows "\<exists>docs. load_local_documents pdf fs = Inr docs
     \<and> (\<forall>p \<in> set fs. \<forall>e.
           is_file p \<and> py_lower (path_suffix (path p)) = ''.pdf'' \<and> pdf \<and> pdf_pages p = Inl e
           \<longrightarrow> \<lparr>page_content = ''[Failed to extract PDF '' @ path p @ '': '' @ exn_str e @ '']'',
                 metadata = [(''source'', path p)]\<rparr> \<in> set docs)
     \<and> (\<forall>p \<in> set fs. \<forall>e t.
           is_file p \<and> py_lower (path_suffix (path p)) \<in> set [''.txt'', ''.md'', ''.html'']
           \<and> read_text_utf8 p = Inl e \<and> read_text_latin1 p = Inr t
           \<longrightarrow> \<lparr>page_content = t, metadata = [(''source'', path p)]\<rparr> \<in> set docs)"
proof -
  have "\<forall>p \<in> set fs. \<forall>e. load_one pdf p \<noteq> Inl e"
  proof (intro ballI allI notI)
    fix p e assume p: "p \<in> set fs" and "load_one pdf p = Inl e"
    from load_one_raises [OF this(2)] assms p show False by auto
  qed
  from load_local_documents_total [OF this] obtain docs where
    docs: "load_local_documents pdf fs = Inr docs" ..
  note mem = load_local_documents_member [OF docs]
  have "\<lparr>page_content = ''[Failed to extract PDF '' @ path p @ '': '' @ exn_str e @ '']'',
         metadata = [(''source'', path p)]\<rparr> \<in> set docs"
    if "p \<in> set fs" "is_file p" "py_lower (path_suffix (path p)) = ''.pdf''" "pdf"
       "pdf_pages p = Inl e" for p e
  proof -
    from that have "load_one pdf p =
      Inr (Some \<lparr>page_content = ''[Failed to extract PDF '' @ path p @ '': '' @ exn_str e @ '']'',
                 metadata = [(''source'', path p)]\<rparr>)"
      by (simp add: load_one_def)
    with that(1) mem show ?thesis by blast
  qed
  moreover have "\<lparr>page_content = t, metadata = [(''source'', path p)]\<rparr> \<in> set docs"
    if "p \<in> set fs" "is_file p"
       "py_lower (path_suffix (path p)) \<in> set [''.txt'', ''.md'', ''.html'']"
       "read_text_utf8 p = Inl e" "read_text_latin1 p = Inr t" for p e t
  proof -
    from that have "load_one pdf p = Inr (Some \<lparr>page_content = t, metadata = [(''source'', path p)]\<rparr>)"
      by (auto simp: load_one_def)
    with that(1) mem show ?thesis by blast
  qed
  ultimately show ?thesis using docs by blast
qed

theorem extraction_pass_survives_witness:
  "\<exists>docs. load_local_documents True [ex_broken_pdf, ex_menu, ex_notes] = Inr docs
     \<and> \<lparr>page_content = ''[Failed to extract PDF data/broken.pdf: EOF marker not found]'',
         metadata = [(''source'', ''data/broken.pdf'')]\<rparr> \<in> set docs
     \<and> \<lparr>page_content = ''caf'' @ [CHR 0xE9], metadata = [(''source'', ''data/menu.md'')]\<rparr> \<in> set docs"
proof -
  have h: "\<forall>p \<in> set [ex_broken_pdf, ex_menu, ex_notes].
             is_file p \<and> py_lower (path_suffix (path p)) \<in> set [''.txt'', ''.md'', ''.html'']
             \<longrightarrow> (\<exists>t. read_text_utf8 p = Inr t) \<or> (\<exists>t. read_text_latin1 p = Inr t)"
    by (simp add: ex_broken_pdf_def ex_menu_def ex_notes_def)
  from extraction_pass_survives [OF h, of True] obtain docs where
    docs: "load_local_documents True [ex_broken_pdf, ex_menu, ex_notes] = Inr docs" and
    pdfs: "\<forall>p \<in> set [ex_broken_pdf, ex_menu, ex_notes]. \<forall>e.
           is_file p \<and> py_lower (path_suffix (path p)) = ''.pdf'' \<and> True \<and> pdf_pages p = Inl e
           \<longrightarrow> \<lparr>page_content = ''[Failed to extract PDF '' @ path p @ '': '' @ exn_str e @ '']'',
                 metadata = [(''source'', path p)]\<rparr> \<in> set docs" and
    txts: "\<forall>p \<in> set [ex_broken_pdf, ex_menu, ex_notes]. \<forall>e t.
           is_file p \<and> py_lower (path_suffix (path p)) \<in> set [''.txt'', ''.md'', ''.html'']
           \<and> read_text_utf8 p = Inl e \<and> read_text_latin1 p = Inr t
           \<longrightarrow> \<lparr>page_content = t, metadata = [(''source'', path p)]\<rparr> \<in> set docs"
    by blast
  have "is_file ex_broken_pdf \<and> py_lower (path_suffix (path ex_broken_pdf)) = ''.pdf'' \<and> True
        \<and> pdf_pages ex_broken_pdf = Inl (PdfError ''EOF marker not found'')"
    by (simp add: ex_broken_pdf_def path_defs)
  moreover have "ex_broken_pdf \<in> set [ex_broken_pdf, ex_menu, ex_notes]" by simp
  ultimately have 1: "\<lparr>page_content = ''[Failed to extract PDF '' @ path ex_broken_pdf @ '': ''
                         @ exn_str (PdfError ''EOF marker not found'') @ '']'',
                      metadata = [(''source'', path ex_broken_pdf)]\<rparr> \<in> set docs"
    using pdfs by blast
  have "is_file ex_menu \<and> py_lower (path_suffix (path ex_menu)) \<in> set [''.txt'', ''.md'', ''.html'']
        \<and> read_text_utf8 ex_menu = Inl (UnicodeDecodeError ''invalid continuation byte'')
        \<and> read_text_latin1 ex_menu = Inr (''caf'' @ [CHR 0xE9])"
    by (simp add: ex_menu_def path_defs)
  moreover have "ex_menu \<in> set [ex_broken_pdf, ex_menu, ex_notes]" by simp
  ultimately have 2: "\<lparr>page_content = ''caf'' @ [CHR 0xE9], metadata = [(''source'', path ex_menu)]\<rparr> \<in> set docs"
    using txts by blast
  from docs 1 2 show ?thesis
    by (simp add: ex_broken_pdf_def ex_menu_def)
qed

text \<open>
  C6. One file's failure should not end the pass, and the PDF branch catches every
  exception of the reader. The text branch does not: the second \<^verbatim>\<open>read_text\<close>
  stands in the \<^verbatim>\<open>except\<close> handler unguarded, so a text file that cannot be opened
  raises again, nothing catches it, and the pass ends without the documents of the other
  files.
\<close>

theorem extraction_pass_aborts_on_unreadable_text:
  "load_local_documents True [ex_locked, ex_notes] = Inl (OSError ''[Errno 13] Permission denied'')"
  by (simp add: ex_locked_def ex_notes_def load_one_def path_defs)

section \<open>Facts about the diagnostics\<close>



lemma rag_section_ok:
  assumes "query_rag_section True search (Inr metadatas) (Inr ps) = Inr r"
  shows "all_sources r = sort (remdups (metadata_names metadatas))"
    and "data_files r = sort (map (\<lambda>p. path_name (path p)) (filter is_file ps))"
    and "no_text_files r = filter (\<lambda>name. name \<notin> set (all_sources r)) (data_files r)"
  using assms
  by (auto simp: query_rag_section_def Let_def split: sum.splits prod.splits if_splits)

lemma metadata_names_set:
  "set (metadata_names metadatas) =
     {path_name s | s m. m \<in> set metadatas \<and> map_of m ''source'' = Some s \<and> s \<noteq> []}"
proof (induction metadatas)
  case Nil
  then show ?case by (simp add: metadata_names_def)
next
  case (Cons m ms)
  have "metadata_names (m # ms) =
          (case map_of m ''source'' of
             None \<Rightarrow> metadata_names ms
           | Some s \<Rightarrow> if s = [] then metadata_names ms else path_name s # metadata_names ms)"
    by (simp add: metadata_names_def split: option.splits)
  with Cons.IH show ?case
    by (auto split: option.splits if_splits)
qed


lemma metadata_names_mem:
  "n \<in> set (metadata_names metadatas) \<longleftrightarrow>
     (\<exists>m \<in> set metadatas. \<exists>s. map_of m ''source'' = Some s \<and> s \<noteq> [] \<and> path_name s = n)"
  unfolding metadata_names_set by blast




lemma rag_section_unindexed:
  assumes "query_rag_section True search (Inr metadatas) (Inr ps) = Inr r"
  shows "n \<in> set (no_text_files r) \<longleftrightarrow>
           n \<in> set (data_files r) \<and> n \<notin> set (metadata_names metadatas)"
proof -
  note ok = rag_section_ok [OF assms]
  have "set (all_sources r) = set (metadata_names metadatas)"
    by (simp add: ok(1))
  moreover have "set (no_text_files r) = {x \<in> set (data_files r). x \<notin> set (all_sources r)}"
    by (subst ok(3)) simp
  ultimately show ?thesis by simp
qed








text \<open>
  When the skip message cannot be written, the same scanned PDF is appended as a
  placeholder.
\<close>

lemma ex_load_scanned_unprinted:
  "load_one True ex_scanned_unprinted =
     Inr (Some \<lparr>page_content = ''[Failed to extract PDF data/b/x.pdf: I/O operation on closed file]'',
                metadata = [(''source'', ''data/b/x.pdf'')]\<rparr>)"
proof -
  have "py_lower (path_suffix (path ex_scanned_unprinted)) = ''.pdf''"
    by (simp add: ex_scanned_unprinted_def ex_scanned_pdf_def path_defs)
  then show ?thesis
    by (simp add: load_one_def)
       (simp add: ex_scanned_unprinted_def ex_scanned_pdf_def page_text_def py_strip_def)
qed



lemma ex_names:
  "path_name (path ex_scanned_pdf) = ''x.pdf''"
  "path_name (path ex_text_pdf) = ''x.pdf''"
  "path_name (path ex_notes) = ''notes.txt''"
  "path_name ''data/a/x.pdf'' = ''x.pdf''"
  "path_name ''data/notes.txt'' = ''notes.txt''"
  by (simp_all add: ex_scanned_pdf_def ex_text_pdf_def ex_notes_def path_name_def)


lemma ex_rag_clash:
  "query_rag_section True (Inr []) (Inr [[(''source'', ''data/a/x.pdf'')]])
       (Inr [ex_text_pdf, ex_scanned_pdf]) =
     Inr \<lparr>sources = [], context_pieces = [], all_sources = [''x.pdf''],
          data_files = [''x.pdf'', ''x.pdf''], no_text_files = []\<rparr>"
proof -
  have "filter is_file [ex_text_pdf, ex_scanned_pdf] = [ex_text_pdf, ex_scanned_pdf]"
    by (simp add: ex_text_pdf_def ex_scanned_pdf_def)
  moreover have "metadata_names [[(''source'', ''data/a/x.pdf'')]] = [''x.pdf'']"
    by (simp add: metadata_names_def ex_names)
  ultimately show ?thesis
    by (simp add: query_rag_section_def ex_names Let_def)
qed


section \<open>Short PDFs\<close>




section \<open>The diagnostic works on file names\<close>

text \<open>
  C10. The list of indexed sources holds the file name of every stored source, the
  enumeration holds the file name of every regular file, and the unindexed list is the
  enumeration without the indexed names. So a regular file is left out of the
  unindexed list whenever some stored source, of this or of any other file, has its
  file name.
\<close>

theorem diagnostic_compares_basenames:
  assumes "query_rag_section True search (Inr metadatas) (Inr ps) = Inr r"
  shows "set (all_sources r) =
           {path_name s | s m. m \<in> set metadatas \<and> map_of m ''source'' = Some s \<and> s \<noteq> []}
       \<and> data_files r = sort (map (\<lambda>p. path_name (path p)) (filter is_file ps))
       \<and> no_text_files r = filter (\<lambda>name. name \<notin> set (all_sources r)) (data_files r)
       \<and> (\<forall>p \<in> set ps. \<forall>m \<in> set metadatas. \<forall>s.
            is_file p \<and> map_of m ''source'' = Some s \<and> s \<noteq> []
            \<and> path_name s = path_name (path p)
            \<longrightarrow> path_name (path p) \<notin> set (no_text_files r))"
proof -
  note ok = rag_section_ok [OF assms]
  have 1: "set (all_sources r) =
           {path_name s | s m. m \<in> set metadatas \<and> map_of m ''source'' = Some s \<and> s \<noteq> []}"
    by (simp add: ok(1) metadata_names_set)
  have 4: "path_name (path p) \<notin> set (no_text_files r)"
    if "m \<in> set metadatas" "map_of m ''source'' = Some s" "s \<noteq> []"
       "path_name s = path_name (path p)" for p :: fs_entry and m s
  proof -
    from that have "path_name (path p) \<in> set (metadata_names metadatas)"
      unfolding metadata_names_mem by blast
    then show ?thesis
      by (simp add: rag_section_unindexed [OF assms])
  qed
  from 1 ok(2) ok(3) 4 show ?thesis by blast
qed

theorem diagnostic_compares_basenames_witness:
  "path ex_scanned_pdf \<noteq> ''data/a/x.pdf''
   \<and> query_rag_section True (Inr []) (Inr [[(''source'', ''data/a/x.pdf'')]])
        (Inr [ex_text_pdf, ex_scanned_pdf]) =
       Inr \<lparr>sources = [], context_pieces = [], all_sources = [''x.pdf''],
            data_files = [''x.pdf'', ''x.pdf''], no_text_files = []\<rparr>
   \<and> path_name (path ex_scanned_pdf) \<notin> set (no_text_files \<lparr>sources = [], context_pieces = [],
          all_sources = [''x.pdf''], data_files = [''x.pdf'', ''x.pdf''], no_text_files = []\<rparr>)"
proof -
  let ?r = "\<lparr>sources = [], context_pieces = [], all_sources = [''x.pdf''],
            data_files = [''x.pdf'', ''x.pdf''], no_text_files = []\<rparr>"
  note t = diagnostic_compares_basenames [OF ex_rag_clash]
  have "ex_scanned_pdf \<in> set [ex_text_pdf, ex_scanned_pdf]" by simp
  moreover have "[(''source'', ''data/a/x.pdf'')] \<in> set [[(''source'', ''data/a/x.pdf'')]]" by simp
  moreover have "is_file ex_scanned_pdf \<and> map_of [(''source'', ''data/a/x.pdf'')] ''source'' = Some ''data/a/x.pdf''
     \<and> ''data/a/x.pdf'' \<noteq> [] \<and> path_name ''data/a/x.pdf'' = path_name (path ex_scanned_pdf)"
    by (simp add: ex_names) (simp add: ex_scanned_pdf_def)
  ultimately have "path_name (path ex_scanned_pdf) \<notin> set (no_text_files ?r)"
    using t by blast
  moreover have "path ex_scanned_pdf \<noteq> ''data/a/x.pdf''"
    by (simp add: ex_scanned_pdf_def)
  ultimately show ?thesis using ex_rag_clash by simp
qed

section \<open>Failures while computing the diagnostics\<close>






section \<open>Loading or building the index\<close>

lemmas py_int_defs = py_int_def py_int_strip_def py_int_isspace_def is_digit_def digits_val_def

lemma ex_fresh: "persist_exists ex_world_fresh \<and> \<not> needs_reindex ex_world_fresh"
  by (simp add: ex_world_fresh_def needs_reindex_def)

lemma ex_empty: "persist_exists ex_world_empty \<and> \<not> needs_reindex ex_world_empty"
  by (simp add: ex_world_empty_def needs_reindex_def compute_manifest_from_files_def)

lemma ex_empty_build:
  "build_index cfg ev ex_world_empty =
     (Inl (RuntimeError ''No documents found to index. Add files in ./data/ and try again.''),
      ex_world_empty)"
  by (simp add: build_index_def ex_world_empty_def)

lemma ex_load_failed_message:
  "exn_str (load_failed [TypeError ''unexpected keyword embedding_function'',
                         TypeError ''unexpected keyword embedding'',
                         ValueError ''no such table: collections'',
                         RuntimeError ''No documents found to index. Add files in ./data/ and try again.'']) =
   ''Failed to load or build Chroma vector store. Errors: [TypeError('' @ [CHR 0x27]
     @ ''unexpected keyword embedding_function'' @ [CHR 0x27] @ ''), TypeError('' @ [CHR 0x27]
     @ ''unexpected keyword embedding'' @ [CHR 0x27] @ ''), ValueError('' @ [CHR 0x27]
     @ ''no such table: collections'' @ [CHR 0x27] @ ''), RuntimeError('' @ [CHR 0x27]
     @ ''No documents found to index. Add files in ./data/ and try again.'' @ [CHR 0x27] @ '')]''"
  by (simp add: load_failed_def exn_list_repr_def exn_repr_def)

lemma ex_py_int:
  "py_int ''100'' = Inr 100" "py_int ''200'' = Inr 200" "py_int ''1000'' = Inr 1000"
  by (simp_all add: py_int_defs)

text \<open>
  The embedding provider is constructed before the first \<^verbatim>\<open>try\<close>: its exception
  leaves \<open>load_or_build\<close> as it is.
\<close>

lemma load_or_build_embeddings_raise:
  "persist_exists w \<Longrightarrow> \<not> needs_reindex w \<Longrightarrow> new_embeddings ev = Some e \<Longrightarrow>
     load_or_build cfg ev w = (Inl e, w)"
  by (simp add: load_or_build_def)

text \<open>
  C2, as amended. When the index directory is absent or the manifest is stale,
  \<open>load_or_build\<close> is \<open>build_index\<close>, and an exception of that build is raised as
  it is. Otherwise, once the embedding provider is constructed, the constructor with
  \<^verbatim>\<open>embedding_function=\<close> is tried, then the one with \<^verbatim>\<open>embedding=\<close>, then the one
  without embeddings, then a full rebuild; from there an exception is raised only when
  the rebuild fails too, and it is the \<^verbatim>\<open>RuntimeError\<close> whose message lists the four
  failures in order.
\<close>

theorem load_or_build_strategy:
  "(\<not> persist_exists w \<or> needs_reindex w \<longrightarrow> load_or_build cfg ev w = build_index cfg ev w)
   \<and> (persist_exists w \<and> \<not> needs_reindex w \<longrightarrow>
        (new_embeddings ev = None \<longrightarrow>
             (\<forall>vs. open_embedding_function ev = Inr vs \<longrightarrow> load_or_build cfg ev w = (Inr vs, w))
             \<and> (\<forall>e1 vs. open_embedding_function ev = Inl e1 \<and> open_embedding ev = Inr vs
                   \<longrightarrow> load_or_build cfg ev w = (Inr vs, w))
             \<and> (\<forall>e1 e2 vs. open_embedding_function ev = Inl e1 \<and> open_embedding ev = Inl e2
                   \<and> open_plain ev = Inr vs
                   \<longrightarrow> load_or_build cfg ev w = (Inr vs, w))
             \<and> (\<forall>e1 e2 e3 vs w'. open_embedding_function ev = Inl e1 \<and> open_embedding ev = Inl e2
                   \<and> open_plain ev = Inl e3 \<and> build_index cfg ev w = (Inr vs, w')
                   \<longrightarrow> load_or_build cfg ev w = (Inr vs, w'))
             \<and> (\<forall>e1 e2 e3 e4 w'. open_embedding_function ev = Inl e1 \<and> open_embedding ev = Inl e2
                   \<and> open_plain ev = Inl e3 \<and> build_index cfg ev w = (Inl e4, w')
                   \<longrightarrow> load_or_build cfg ev w = (Inl (load_failed [e1, e2, e3, e4]), w'))
             \<and> (\<forall>e. fst (load_or_build cfg ev w) = Inl e \<longrightarrow>
                   (\<exists>e1 e2 e3 e4. open_embedding_function ev = Inl e1 \<and> open_embedding ev = Inl e2
                      \<and> open_plain ev = Inl e3 \<and> fst (build_index cfg ev w) = Inl e4
                      \<and> e = load_failed [e1, e2, e3, e4]))))"
proof (intro conjI impI)
  assume "\<not> persist_exists w \<or> needs_reindex w"
  then show "load_or_build cfg ev w = build_index cfg ev w"
    by (auto simp: load_or_build_def)
next
  assume a: "persist_exists w \<and> \<not> needs_reindex w" and n: "new_embeddings ev = None"
  show "\<forall>vs. open_embedding_function ev = Inr vs \<longrightarrow> load_or_build cfg ev w = (Inr vs, w)"
    using a n by (simp add: load_or_build_def)
next
  assume a: "persist_exists w \<and> \<not> needs_reindex w" and n: "new_embeddings ev = None"
  show "\<forall>e1 vs. open_embedding_function ev = Inl e1 \<and> open_embedding ev = Inr vs
                   \<longrightarrow> load_or_build cfg ev w = (Inr vs, w)"
    using a n by (simp add: load_or_build_def)
next
  assume a: "persist_exists w \<and> \<not> needs_reindex w" and n: "new_embeddings ev = None"
  show "\<forall>e1 e2 vs. open_embedding_function ev = Inl e1 \<and> open_embedding ev = Inl e2
                   \<and> open_plain ev = Inr vs
                   \<longrightarrow> load_or_build cfg ev w = (Inr vs, w)"
    using a n by (simp add: load_or_build_def)
next
  assume a: "persist_exists w \<and> \<not> needs_reindex w" and n: "new_embeddings ev = None"
  show "\<forall>e1 e2 e3 vs w'. open_embedding_function ev = Inl e1 \<and> open_embedding ev = Inl e2
                   \<and> open_plain ev = Inl e3 \<and> build_index cfg ev w = (Inr vs, w')
                   \<longrightarrow> load_or_build cfg ev w = (Inr vs, w')"
    using a n by (simp add: load_or_build_def)
next
  assume a: "persist_exists w \<and> \<not> needs_reindex w" and n: "new_embeddings ev = None"
  show "\<forall>e1 e2 e3 e4 w'. open_embedding_function ev = Inl e1 \<and> open_embedding ev = Inl e2
                   \<and> open_plain ev = Inl e3 \<and> build_index cfg ev w = (Inl e4, w')
                   \<longrightarrow> load_or_build cfg ev w = (Inl (load_failed [e1, e2, e3, e4]), w')"
    using a n by (simp add: load_or_build_def)
next
  assume a: "persist_exists w \<and> \<not> needs_reindex w" and n: "new_embeddings ev = None"
  show "\<forall>e. fst (load_or_build cfg ev w) = Inl e \<longrightarrow>
                   (\<exists>e1 e2 e3 e4. open_embedding_function ev = Inl e1 \<and> open_embedding ev = Inl e2
                      \<and> open_plain ev = Inl e3 \<and> fst (build_index cfg ev w) = Inl e4
                      \<and> e = load_failed [e1, e2, e3, e4])"
    using a n
    by (cases "build_index cfg ev w")
       (auto simp: load_or_build_def split: sum.splits)
qed

theorem load_or_build_strategy_witness:
  "load_or_build ex_cfg ex_env ex_world = build_index ex_cfg ex_env ex_world
   \<and> load_or_build ex_cfg ex_env_opens ex_world_fresh = (Inr (VectorStore [] True), ex_world_fresh)
   \<and> load_or_build ex_cfg ex_env ex_world_empty =
       (Inl (load_failed [TypeError ''unexpected keyword embedding_function'',
                          TypeError ''unexpected keyword embedding'',
                          ValueError ''no such table: collections'',
                          RuntimeError ''No documents found to index. Add files in ./data/ and try again.'']),
        ex_world_empty)"
proof -
  have 1: "load_or_build ex_cfg ex_env ex_world = build_index ex_cfg ex_env ex_world"
  proof -
    have "\<not> persist_exists ex_world \<or> needs_reindex ex_world"
      by (simp add: ex_world_def)
    with load_or_build_strategy [of ex_world ex_cfg ex_env] show ?thesis by blast
  qed
  have 2: "load_or_build ex_cfg ex_env_opens ex_world_fresh = (Inr (VectorStore [] True), ex_world_fresh)"
  proof -
    have "new_embeddings ex_env_opens = None"
      "open_embedding_function ex_env_opens = Inr (VectorStore [] True)"
      by (simp_all add: ex_env_opens_def ex_env_def)
    with ex_fresh load_or_build_strategy [of ex_world_fresh ex_cfg ex_env_opens]
    show ?thesis by blast
  qed
  have 3: "load_or_build ex_cfg ex_env ex_world_empty =
       (Inl (load_failed [TypeError ''unexpected keyword embedding_function'',
                          TypeError ''unexpected keyword embedding'',
                          ValueError ''no such table: collections'',
                          RuntimeError ''No documents found to index. Add files in ./data/ and try again.'']),
        ex_world_empty)"
  proof -
    have "new_embeddings ex_env = None"
      "open_embedding_function ex_env = Inl (TypeError ''unexpected keyword embedding_function'')"
      "open_embedding ex_env = Inl (TypeError ''unexpected keyword embedding'')"
      "open_plain ex_env = Inl (ValueError ''no such table: collections'')"
      by (simp_all add: ex_env_def)
    with ex_empty ex_empty_build [of ex_cfg ex_env]
      load_or_build_strategy [of ex_world_empty ex_cfg ex_env]
    show ?thesis by blast
  qed
  from 1 2 3 show ?thesis by (intro conjI)
qed

text \<open>
  C2 as stated fails: with an index directory that exists and is fresh, a failure to
  load the embedding model is raised before any constructor is tried, as the bare
  exception; and with an absent directory over an empty folder the error of the build
  is raised without any attempt to open and without aggregation.
\<close>

theorem load_or_build_raw_error_counterexample:
  "persist_exists ex_world_fresh
   \<and> \<not> needs_reindex ex_world_fresh
   \<and> load_or_build ex_cfg ex_env_offline ex_world_fresh =
       (Inl (OSError ''model all-MiniLM-L6-v2 not found''), ex_world_fresh)
   \<and> fst (load_or_build ex_cfg ex_env
            \<lparr>files = [], manifest_file = Missing, persist_exists = False, index = None\<rparr>) =
       Inl (RuntimeError ''No documents found to index. Add files in ./data/ and try again.'')"
  using ex_fresh
  by (simp add: load_or_build_def ex_env_offline_def build_index_def)

section \<open>Configuration errors\<close>

text \<open>
  C7, as amended. A build over a folder that gives no document raises the
  \<^verbatim>\<open>RuntimeError\<close> and leaves the index, the manifest and the directory as they
  were. The splitter settings are read without comparing them: whatever two integers
  the environment gives are accepted as window and overlap.
\<close>

theorem config_errors_surface:
  "(load_local_documents (pypdf ev) (files w) = Inr [] \<longrightarrow>
      build_index cfg ev w =
        (Inl (RuntimeError ''No documents found to index. Add files in ./data/ and try again.''), w))
   \<and> (\<forall>s1 s2 a b.
         environ ''RAG_CHUNK_SIZE'' = Some s1 \<and> environ ''RAG_CHUNK_OVERLAP'' = Some s2
         \<and> py_int s1 = Inr a \<and> py_int s2 = Inr b
         \<longrightarrow> load_config environ = Inr \<lparr>CHUNK_SIZE = a, CHUNK_OVERLAP = b\<rparr>)"
  by (simp add: build_index_def load_config_def getenv_int_def)

theorem config_errors_surface_witness:
  "build_index ex_cfg ex_env ex_world_empty =
     (Inl (RuntimeError ''No documents found to index. Add files in ./data/ and try again.''),
      ex_world_empty)
   \<and> load_config [''RAG_CHUNK_SIZE'' \<mapsto> ''1000'', ''RAG_CHUNK_OVERLAP'' \<mapsto> ''1000''] =
       Inr \<lparr>CHUNK_SIZE = 1000, CHUNK_OVERLAP = 1000\<rparr>"
proof -
  note t = config_errors_surface [of ex_env ex_world_empty ex_cfg
      "[''RAG_CHUNK_SIZE'' \<mapsto> ''1000'', ''RAG_CHUNK_OVERLAP'' \<mapsto> ''1000'']"]
  have "load_local_documents (pypdf ex_env) (files ex_world_empty) = Inr []"
    by (simp add: ex_world_empty_def)
  with t have 1: "build_index ex_cfg ex_env ex_world_empty =
     (Inl (RuntimeError ''No documents found to index. Add files in ./data/ and try again.''),
      ex_world_empty)"
    by blast
  have "[''RAG_CHUNK_SIZE'' \<mapsto> ''1000'', ''RAG_CHUNK_OVERLAP'' \<mapsto> ''1000''] ''RAG_CHUNK_SIZE'' = Some ''1000''
      \<and> [''RAG_CHUNK_SIZE'' \<mapsto> ''1000'', ''RAG_CHUNK_OVERLAP'' \<mapsto> ''1000''] ''RAG_CHUNK_OVERLAP'' = Some ''1000''
      \<and> py_int ''1000'' = Inr 1000 \<and> py_int ''1000'' = Inr 1000"
    by (simp add: ex_py_int)
  with t have 2: "load_config [''RAG_CHUNK_SIZE'' \<mapsto> ''1000'', ''RAG_CHUNK_OVERLAP'' \<mapsto> ''1000''] =
       Inr \<lparr>CHUNK_SIZE = 1000, CHUNK_OVERLAP = 1000\<rparr>"
    by blast
  from 1 2 show ?thesis by (intro conjI)
qed

text \<open>
  C7 as stated fails: an overlap of 200 with a window of 100 is loaded without error,
  and the start-up path that opens an existing fresh index returns its store with these
  settings, although the splitter would refuse them.
\<close>

theorem overlap_accepted_counterexample:
  "load_config [''RAG_CHUNK_SIZE'' \<mapsto> ''100'', ''RAG_CHUNK_OVERLAP'' \<mapsto> ''200''] =
     Inr \<lparr>CHUNK_SIZE = 100, CHUNK_OVERLAP = 200\<rparr>
   \<and> load_or_build \<lparr>CHUNK_SIZE = 100, CHUNK_OVERLAP = 200\<rparr> ex_env_opens ex_world_fresh =
       (Inr (VectorStore [] True), ex_world_fresh)"
  using ex_fresh
  by (simp add: load_config_def getenv_int_def ex_py_int load_or_build_def ex_env_opens_def ex_env_def)

end
